theory Spec2Isabelle
  imports
    Complex_Main
    "HOL-Library.Word"
    "HOL-Library.Multiset"
    "HOL-Library.Sublist"
    "HOL-Library.Char_ord"
    "HOL-Library.List_Lexorder"
begin

section \<open>Python values, errors and files\<close>

text \<open>
  A byte is an 8-bit word.  A Python \<open>str\<close> is modelled by the list of the bytes of
  its UTF-8 encoding (the order of UTF-8 byte strings is the order of the code points, which
  is the order Python compares strings by).  A dictionary is an association list in
  insertion order; a dictionary of the program never holds a key twice.
\<close>

type_synonym byte = "8 word"

datatype pyval =
    PNone
  | PBool bool
  | PInt int
  | PStr string
  | PBytes "byte list"
  | PList "pyval list"
  | PDict "(string \<times> pyval) list"

type_synonym pydict = "(string \<times> pyval) list"

text \<open>
  The exceptions the modelled code can raise, each with the text it carries.  The last two
  are the names the spec gives: \<open>RenderExecutionError\<close> is what the cache wraps a failure
  of a renderer in, and no code at hand raises \<open>InvalidInputError\<close>.
\<close>

datatype pyerror =
    KeyError string
  | IndexError
  | TypeError
  | AssertionError
  | FileNotFoundError string
  | PermissionError string
  | OSError string
  | ValueError string
  | JSONDecodeError
  | BinasciiError
  | CalledProcessError string int
  | FailedToExecuteSubprocessException string
  | RenderExecutionError string string pyerror
  | InvalidInputError

text \<open>Sequencing of computations that may raise: the first exception wins.\<close>

definition bindE :: "pyerror + 'a \<Rightarrow> ('a \<Rightarrow> pyerror + 'b) \<Rightarrow> pyerror + 'b" where
  "bindE m f = (case m of Inl e \<Rightarrow> Inl e | Inr v \<Rightarrow> f v)"

text \<open>\<open>d[k]\<close> on a dictionary: a missing key raises \<open>KeyError\<close>.\<close>

definition dict_get :: "pydict \<Rightarrow> string \<Rightarrow> pyerror + pyval" where
  "dict_get d k = (case map_of d k of None \<Rightarrow> Inl (KeyError k) | Some v \<Rightarrow> Inr v)"

section \<open>PresentationRenderer.py: RenderedPresentation\<close>

text \<open>
  The state of a \<open>RenderedPresentation\<close> that \<open>add_file\<close> and \<open>copy_file\<close> touch:
  the deploy directory, the set \<open>_added_files\<close>, and the file system.  A file holds the
  value written to it (a \<open>str\<close> through mode \<open>"w"\<close>, bytes through \<open>"wb"\<close>).
  Whether the operating system lets a path be opened for writing is the predicate
  \<open>can_write\<close>; where it does not, \<open>open\<close> (or \<open>os.makedirs\<close>) raises.
\<close>

record rendered_presentation =
  deploy_directory :: string
  added_files :: "string set"
  files :: "string \<rightharpoonup> pyval"

text \<open>Reading a file through mode \<open>"rb"\<close> yields its bytes.\<close>

definition encode_str :: "string \<Rightarrow> byte list" where
  "encode_str s = map (\<lambda>c. of_nat (of_char c)) s"

definition read_rb :: "(string \<rightharpoonup> pyval) \<Rightarrow> string \<Rightarrow> pyerror + pyval" where
  "read_rb fs name =
     (case fs name of
        None \<Rightarrow> Inl (FileNotFoundError name)
      | Some (PStr s) \<Rightarrow> Inr (PBytes (encode_str s))
      | Some v \<Rightarrow> Inr v)"

text \<open>
  \<open>add_file\<close>: a destination already in \<open>_added_files\<close> returns at once.  Otherwise the
  destination is added to the set first, and then the file is opened and written; a
  content that is neither \<open>str\<close> nor bytes leaves the opened file empty and raises.
\<close>

definition add_file ::
  "(string \<Rightarrow> bool) \<Rightarrow> string \<Rightarrow> pyval \<Rightarrow> rendered_presentation
     \<Rightarrow> (pyerror + unit) \<times> rendered_presentation" where
  "add_file can_write destination_relpath content rp =
     (if destination_relpath \<in> added_files rp then (Inr (), rp)
      else
        let rp1 = rp\<lparr>added_files := insert destination_relpath (added_files rp)\<rparr>;
            filename = deploy_directory rp @ ''/'' @ destination_relpath
        in if \<not> can_write filename then (Inl (OSError filename), rp1)
           else (case content of
                   PStr s \<Rightarrow> (Inr (), rp1\<lparr>files := (files rp1)(filename \<mapsto> PStr s)\<rparr>)
                 | PBytes b \<Rightarrow> (Inr (), rp1\<lparr>files := (files rp1)(filename \<mapsto> PBytes b)\<rparr>)
                 | _ \<Rightarrow> (Inl TypeError, rp1\<lparr>files := (files rp1)(filename \<mapsto> PBytes [])\<rparr>)))"

definition copy_file ::
  "(string \<Rightarrow> bool) \<Rightarrow> string \<Rightarrow> string \<Rightarrow> rendered_presentation
     \<Rightarrow> (pyerror + unit) \<times> rendered_presentation" where
  "copy_file can_write source_filename destination_relpath rp =
     (if destination_relpath \<in> added_files rp then (Inr (), rp)
      else (case read_rb (files rp) source_filename of
              Inl e \<Rightarrow> (Inl e, rp)
            | Inr data \<Rightarrow> add_file can_write destination_relpath data rp))"

section \<open>renderer/ExecRenderer.py\<close>

text \<open>
  \<open>cmd[0]\<close>: Python's indexing with \<open>0\<close>, for whatever value the request holds under
  \<open>"cmd"\<close>.  A list and a string yield their first element and raise \<open>IndexError\<close>
  when empty, bytes yield the first byte as an integer, a dictionary (whose keys are
  strings here) has no key \<open>0\<close>, and the other values cannot be indexed.
\<close>

fun getitem0 :: "pyval \<Rightarrow> pyerror + pyval" where
  "getitem0 (PList (x # _)) = Inr x"
| "getitem0 (PList []) = Inl IndexError"
| "getitem0 (PStr (c # _)) = Inr (PStr [c])"
| "getitem0 (PStr []) = Inl IndexError"
| "getitem0 (PBytes (b # _)) = Inr (PInt (uint b))"
| "getitem0 (PBytes []) = Inl IndexError"
| "getitem0 (PDict _) = Inl (KeyError ''0'')"
| "getitem0 _ = Inl TypeError"

text \<open>
  \<open>ExecRenderer.rendering_key\<close>.  \<open>HashTools.hash_file\<close> is not part of the sources
  at hand; it is the parameter \<open>hash_file\<close>, which yields the content digest of the file
  named by its argument or raises.
\<close>

definition exec_rendering_key :: "(pyval \<Rightarrow> pyerror + string) \<Rightarrow> pydict \<Rightarrow> pyerror + pydict" where
  "exec_rendering_key hash_file property_dict =
     bindE (dict_get property_dict ''cmd'') (\<lambda>cmd.
     bindE (getitem0 cmd) (\<lambda>exe.
     bindE (hash_file exe) (\<lambda>h.
       Inr [(''srchash'', PStr h)])))"

text \<open>
  What \<open>subprocess.run(cmd, stdout = PIPE, stderr = PIPE)\<close> can do: the process runs to its
  end, with a return code and the captured output, or it cannot be started and \<open>run\<close>
  raises: \<open>PermissionError\<close>, \<open>FileNotFoundError\<close>, another \<open>OSError\<close>,
  \<open>TypeError\<close> for a command that is no sequence of strings, \<open>IndexError\<close> for the
  empty command \<open>[]\<close>, or \<open>ValueError\<close> (an argument with a NUL byte).  A failure
  carries the text \<open>str(e)\<close> where the exception has one.
\<close>

datatype spawn_error =
    SpawnPermission string
  | SpawnNotFound string
  | SpawnOther string
  | SpawnTypeError
  | SpawnIndexError
  | SpawnValueError string

text \<open>The exception that \<open>subprocess.run\<close> raises for a failure to start.\<close>

fun run_exception :: "spawn_error \<Rightarrow> pyerror" where
  "run_exception (SpawnPermission e) = PermissionError e"
| "run_exception (SpawnNotFound e) = FileNotFoundError e"
| "run_exception (SpawnOther e) = OSError e"
| "run_exception SpawnTypeError = TypeError"
| "run_exception SpawnIndexError = IndexError"
| "run_exception (SpawnValueError e) = ValueError e"

datatype proc_outcome =
    Completed int "byte list" "byte list"
  | NotStarted spawn_error

text \<open>The decimal digits of \<open>"%d" % n\<close>.\<close>

definition digit_char :: "nat \<Rightarrow> char" where
  "digit_char d = ''0123456789'' ! d"

fun show_nat :: "nat \<Rightarrow> string" where
  "show_nat n = (if n < 10 then [digit_char n] else show_nat (n div 10) @ [digit_char (n mod 10)])"

declare show_nat.simps [simp del]

definition show_int :: "int \<Rightarrow> string" where
  "show_int i = (if i < 0 then CHR ''-'' # show_nat (nat (- i)) else show_nat (nat i))"

text \<open>
  The two messages of \<open>ExecRenderer.render\<close>:
  \<open>"Could not execute '%s' (%s)." % (str(cmd), str(e))\<close> and
  \<open>"Could not execute '%s': returncode %d." % (str(cmd), proc.returncode)\<close>.
  Python's \<open>str\<close> of a value is the parameter \<open>py_str\<close>.
\<close>

definition msg_not_started :: "string \<Rightarrow> string \<Rightarrow> string" where
  "msg_not_started cmd_str e_str =
     ''Could not execute '' @ [CHR 0x27] @ cmd_str @ [CHR 0x27] @ '' ('' @ e_str @ '').''"

definition msg_returncode :: "string \<Rightarrow> int \<Rightarrow> string" where
  "msg_returncode cmd_str rc =
     ''Could not execute '' @ [CHR 0x27] @ cmd_str @ [CHR 0x27] @ '': returncode '' @ show_int rc @ ''.''"

text \<open>
  \<open>ExecRenderer.render\<close>.  Only \<open>PermissionError\<close> is caught around \<open>subprocess.run\<close>;
  every other exception of \<open>run\<close> leaves \<open>render\<close> as it is.
\<close>

definition exec_render ::
  "(pyval \<Rightarrow> string) \<Rightarrow> (pyval \<Rightarrow> proc_outcome) \<Rightarrow> pydict \<Rightarrow> pyerror + pydict" where
  "exec_render py_str run property_dict =
     bindE (dict_get property_dict ''cmd'') (\<lambda>cmd.
       case run cmd of
         NotStarted (SpawnPermission e) \<Rightarrow>
           Inl (FailedToExecuteSubprocessException (msg_not_started (py_str cmd) e))
       | NotStarted other \<Rightarrow> Inl (run_exception other)
       | Completed returncode out err \<Rightarrow>
           if returncode \<noteq> 0
           then Inl (FailedToExecuteSubprocessException (msg_returncode (py_str cmd) returncode))
           else Inr [(''cmd'', cmd), (''stdout'', PBytes out), (''stderr'', PBytes err)])"

definition exec_properties :: pydict where
  "exec_properties = [(''version'', PInt 1)]"

text \<open>Whether an exception is the \<open>FailedToExecuteSubprocessException\<close>.\<close>

fun is_failed_to_execute :: "pyerror + 'a \<Rightarrow> bool" where
  "is_failed_to_execute (Inl (FailedToExecuteSubprocessException _)) = True"
| "is_failed_to_execute _ = False"

section \<open>The renderer cache\<close>

text \<open>
  Modelled from the spec: \<open>pybeamer.RendererCache\<close> (the classes \<open>BaseRenderer\<close> and
  \<open>RendererCache\<close>) is imported by the renderers and is not part of the sources at hand.
  A renderer capability has a name, a properties mapping, \<open>rendering_key\<close> and \<open>render\<close>;
  \<open>render\<close> may act on the world outside (spawn processes, read files), which is the
  state \<open>'w\<close> it is threaded through.
\<close>

record 'w renderer =
  r_name :: string
  r_properties :: pydict
  r_rendering_key :: "pydict \<Rightarrow> pyerror + pydict"
  r_render :: "pydict \<Rightarrow> 'w \<Rightarrow> (pyerror + pyval) \<times> 'w"

text \<open>
  Modelled from the spec: the default \<open>rendering_key\<close> of a renderer that defines none
  ("default behavior (if unspecified) is to use the entire request").
\<close>

definition base_rendering_key :: "pydict \<Rightarrow> pyerror + pydict" where
  "base_rendering_key property_dict = Inr property_dict"

text \<open>
  Modelled from the spec: the persistent store maps a cache key to a serialized entry; a
  store that cannot be written makes publication fail.  The cache counts the calls of the
  wrapped renderer's \<open>render\<close>.
\<close>

record 'w cache_state =
  entries :: "string \<rightharpoonup> string"
  store_writable :: bool
  render_calls :: nat
  world :: 'w

text \<open>
  Modelled from the spec: the format of the store.  \<open>key_digest\<close> is the content digest
  of the canonical serialization of the key material; \<open>serialize\<close> and \<open>deserialize\<close>
  write and read an entry (reading a corrupt entry yields \<open>None\<close>).
\<close>

record store_format =
  key_digest :: "pyval \<Rightarrow> string"
  serialize :: "pyval \<Rightarrow> string"
  deserialize :: "string \<Rightarrow> pyval option"

text \<open>
  Modelled from the spec: KeyMaterial is \<open>{name, properties, rendering_key(request)}\<close>,
  and the CacheKey is its digest.
\<close>

definition key_material :: "'w renderer \<Rightarrow> pydict \<Rightarrow> pyval" where
  "key_material R rk =
     PDict [(''name'', PStr (r_name R)), (''properties'', PDict (r_properties R)),
            (''rendering_key'', PDict rk)]"

definition cache_key :: "store_format \<Rightarrow> 'w renderer \<Rightarrow> pydict \<Rightarrow> string" where
  "cache_key fmt R rk = key_digest fmt (key_material R rk)"

text \<open>
  Modelled from the spec: steps 1 and 2 of \<open>RendererCache.render\<close>, the key the cache
  derives for a request.  An exception of \<open>rendering_key\<close> leaves the cache as it is.
\<close>

definition request_key :: "store_format \<Rightarrow> 'w renderer \<Rightarrow> pydict \<Rightarrow> pyerror + string" where
  "request_key fmt R request =
     bindE (r_rendering_key R request) (\<lambda>rk. Inr (cache_key fmt R rk))"

text \<open>
  Modelled from the spec: looking a key up in the store.  An entry that is absent or does
  not deserialize is a miss.
\<close>

definition store_lookup :: "store_format \<Rightarrow> 'w cache_state \<Rightarrow> string \<Rightarrow> pyval option" where
  "store_lookup fmt st key =
     (case entries st key of None \<Rightarrow> None | Some raw \<Rightarrow> deserialize fmt raw)"

text \<open>
  Modelled from the spec: \<open>RendererCache.render\<close>, steps 3 to 7 of the spec's section 4.2.
  An entry that exists and deserializes is returned without a call of \<open>render\<close>.  On a miss
  the wrapped \<open>render\<close> is called; its exception is passed on as \<open>RenderExecutionError\<close>
  with the renderer's name and the key, and nothing is written; its result is published
  when the store can be written and is returned in either case.  The result is the pair of
  \<open>keyhash\<close> and \<open>data\<close>.
\<close>

definition cache_render ::
  "store_format \<Rightarrow> 'w renderer \<Rightarrow> pydict \<Rightarrow> 'w cache_state
     \<Rightarrow> (pyerror + string \<times> pyval) \<times> 'w cache_state" where
  "cache_render fmt R request st =
     (case request_key fmt R request of
        Inl e \<Rightarrow> (Inl e, st)
      | Inr key \<Rightarrow>
          (case store_lookup fmt st key of
             Some data \<Rightarrow> (Inr (key, data), st)
           | None \<Rightarrow>
               (case r_render R request (world st) of
                  (Inl e, w') \<Rightarrow>
                    (Inl (RenderExecutionError (r_name R) key e),
                     st\<lparr>render_calls := Suc (render_calls st), world := w'\<rparr>)
                | (Inr data, w') \<Rightarrow>
                    (Inr (key, data),
                     st\<lparr>entries := (if store_writable st
                                      then (entries st)(key \<mapsto> serialize fmt data)
                                      else entries st),
                        render_calls := Suc (render_calls st), world := w'\<rparr>))))"

text \<open>The exec renderer as a renderer capability of the cache.\<close>

definition exec_renderer ::
  "(pyval \<Rightarrow> pyerror + string) \<Rightarrow> (pyval \<Rightarrow> string) \<Rightarrow> (pyval \<Rightarrow> proc_outcome) \<Rightarrow> unit renderer" where
  "exec_renderer hash_file py_str run =
     \<lparr>r_name = ''exec'', r_properties = exec_properties,
      r_rendering_key = exec_rendering_key hash_file,
      r_render = (\<lambda>request w. (map_sum id PDict (exec_render py_str run request), w))\<rparr>"

section \<open>renderer/LatexFormulaRenderer.py: RenderedLatexFormula\<close>

text \<open>
  \<open>", ".join(parts)\<close>.
\<close>

fun join_comma :: "string list \<Rightarrow> string" where
  "join_comma [] = []"
| "join_comma [x] = x"
| "join_comma (x # y # ys) = x @ '', '' @ join_comma (y # ys)"

text \<open>
  \<open>str(items)\<close> for a list of pairs \<open>(key, value)\<close>: brackets around the comma-separated
  pairs, each pair in parentheses.  Python's \<open>repr\<close> of a single value is the parameter
  \<open>py_repr\<close>.
\<close>

definition py_str_items :: "(pyval \<Rightarrow> string) \<Rightarrow> pydict \<Rightarrow> string" where
  "py_str_items py_repr items =
     ''['' @ join_comma (map (\<lambda>(k, v). ''('' @ py_repr (PStr k) @ '', '' @ py_repr v @ '')'') items)
     @ '']''"

text \<open>
  \<open>sorted(rendering_parameters.items())\<close> orders the pairs as tuples.  The keys of a
  dictionary differ from each other, so the comparison of two pairs is decided by their
  keys, and the result is the list of pairs in the order of the keys.
\<close>

definition sorted_items :: "pydict \<Rightarrow> pydict" where
  "sorted_items d = sort_key fst d"

text \<open>
  \<open>RenderedLatexFormula.calculate_cachekey\<close>.  The parameter \<open>md5_hex\<close> stands for
  \<open>hashlib.md5(s.encode("utf-8")).hexdigest()\<close>.
\<close>

definition calculate_cachekey ::
  "(string \<Rightarrow> string) \<Rightarrow> (pyval \<Rightarrow> string) \<Rightarrow> string \<Rightarrow> pydict \<Rightarrow> string" where
  "calculate_cachekey md5_hex py_repr formula rendering_parameters =
     (let input_data = formula @ '' || '' @ py_str_items py_repr (sorted_items rendering_parameters)
      in md5_hex input_data)"

text \<open>The fields of a \<open>RenderedLatexFormula\<close>.\<close>

record rendered_latex_formula =
  rlf_formula :: pyval
  rlf_png_data :: "byte list"
  rlf_image_info :: pyval
  rlf_rendering_parameters :: pyval

text \<open>
  Base64 (RFC 4648, the standard alphabet with padding), as \<open>base64.b64encode\<close> writes it:
  three bytes become four characters of six bits each, and a last group of one or two
  bytes is padded with \<open>=\<close>.
\<close>

definition b64_alphabet :: string where
  "b64_alphabet = ''ABCDEFGHIJKLMNOPQRSTUVWXYZabcdefghijklmnopqrstuvwxyz0123456789+/''"

definition b64_char :: "nat \<Rightarrow> char" where
  "b64_char i = b64_alphabet ! i"

definition b64_index :: "char \<Rightarrow> nat option" where
  "b64_index c = map_of (zip b64_alphabet [0..<64]) c"

fun b64encode :: "byte list \<Rightarrow> string" where
  "b64encode [] = []"
| "b64encode [a] =
     (let n = unat a * 65536
      in [b64_char (n div 262144), b64_char (n div 4096 mod 64), CHR ''='', CHR ''=''])"
| "b64encode [a, b] =
     (let n = unat a * 65536 + unat b * 256
      in [b64_char (n div 262144), b64_char (n div 4096 mod 64), b64_char (n div 64 mod 64),
          CHR ''=''])"
| "b64encode (a # b # c # rest) =
     (let n = unat a * 65536 + unat b * 256 + unat c
      in [b64_char (n div 262144), b64_char (n div 4096 mod 64), b64_char (n div 64 mod 64),
          b64_char (n mod 64)] @ b64encode rest)"

text \<open>
  \<open>base64.b64decode\<close> on text in the form \<open>b64encode\<close> writes: groups of four characters
  of the alphabet, the last group possibly padded.  Any other text is rejected here with
  \<open>binascii.Error\<close>; the library is more lenient on some of it (it skips characters outside
  the alphabet), which no statement below depends on.
\<close>

fun b64decode :: "string \<Rightarrow> byte list option" where
  "b64decode [] = Some []"
| "b64decode (c1 # c2 # c3 # c4 # rest) =
     (case (b64_index c1, b64_index c2) of
        (Some i1, Some i2) \<Rightarrow>
          if rest = [] \<and> c3 = CHR ''='' \<and> c4 = CHR ''=''
          then (let n = i1 * 262144 + i2 * 4096 in Some [of_nat (n div 65536)])
          else (case b64_index c3 of
                  None \<Rightarrow> None
                | Some i3 \<Rightarrow>
                    if rest = [] \<and> c4 = CHR ''=''
                    then (let n = i1 * 262144 + i2 * 4096 + i3 * 64
                          in Some [of_nat (n div 65536), of_nat (n div 256 mod 256)])
                    else (case b64_index c4 of
                            None \<Rightarrow> None
                          | Some i4 \<Rightarrow>
                              (case b64decode rest of
                                 None \<Rightarrow> None
                               | Some bs \<Rightarrow>
                                   (let n = i1 * 262144 + i2 * 4096 + i3 * 64 + i4
                                    in Some (of_nat (n div 65536) # of_nat (n div 256 mod 256)
                                             # of_nat (n mod 256) # bs)))))
      | _ \<Rightarrow> None)"
| "b64decode _ = None"

text \<open>
  \<open>base64.b64decode(v)\<close> for a value read from JSON: a string is decoded, any other JSON
  value is refused with \<open>TypeError\<close>.
\<close>

fun py_b64decode :: "pyval \<Rightarrow> pyerror + byte list" where
  "py_b64decode (PStr s) = (case b64decode s of None \<Rightarrow> Inl BinasciiError | Some bs \<Rightarrow> Inr bs)"
| "py_b64decode (PBytes b) =
     (case b64decode (map (\<lambda>x. char_of (unat x)) b) of None \<Rightarrow> Inl BinasciiError | Some bs \<Rightarrow> Inr bs)"
| "py_b64decode _ = Inl TypeError"

text \<open>
  What \<open>json.dump\<close> can write: every value but bytes.  The values of \<open>pyval\<close> that can be
  written are the values \<open>json.load\<close> yields, and \<open>json.load\<close> yields for the written text
  the value that was written; so a JSON file is modelled by the value it holds, the text
  itself left out.  A \<open>json.dump\<close> that raises leaves the file it had opened cut short.
\<close>

fun json_serializable :: "pyval \<Rightarrow> bool" where
  "json_serializable (PBytes _) = False"
| "json_serializable (PList xs) = list_all json_serializable xs"
| "json_serializable (PDict kvs) = list_all json_serializable (map snd kvs)"
| "json_serializable _ = True"

datatype file_content = JsonDoc pyval | CutShort

text \<open>\<open>v[k]\<close> for a string \<open>k\<close>: only a dictionary can be indexed by a string.\<close>

fun getitem :: "pyval \<Rightarrow> string \<Rightarrow> pyerror + pyval" where
  "getitem (PDict d) k = dict_get d k"
| "getitem _ k = Inl TypeError"

text \<open>\<open>RenderedLatexFormula.write_jsonfile\<close>.\<close>

definition write_jsonfile ::
  "(string \<Rightarrow> bool) \<Rightarrow> rendered_latex_formula \<Rightarrow> string \<Rightarrow> (string \<rightharpoonup> file_content)
     \<Rightarrow> (pyerror + unit) \<times> (string \<rightharpoonup> file_content)" where
  "write_jsonfile can_write self filename fs =
     (let json_data = PDict
            [(''object'', PStr ''formula''),
             (''formula'', rlf_formula self),
             (''rendering_parameters'', rlf_rendering_parameters self),
             (''image_info'', rlf_image_info self),
             (''image'', PStr (b64encode (rlf_png_data self)))]
      in if \<not> can_write filename then (Inl (OSError filename), fs)
         else if json_serializable json_data then (Inr (), fs(filename \<mapsto> JsonDoc json_data))
         else (Inl TypeError, fs(filename \<mapsto> CutShort)))"

text \<open>
  \<open>RenderedLatexFormula.read_jsonfile\<close>.  The keyword arguments of the constructor are
  evaluated in the order they are written.
\<close>

definition read_jsonfile ::
  "string \<Rightarrow> (string \<rightharpoonup> file_content) \<Rightarrow> pyerror + rendered_latex_formula" where
  "read_jsonfile filename fs =
     (case fs filename of
        None \<Rightarrow> Inl (FileNotFoundError filename)
      | Some CutShort \<Rightarrow> Inl JSONDecodeError
      | Some (JsonDoc json_data) \<Rightarrow>
          bindE (getitem json_data ''object'') (\<lambda>obj.
          if obj \<noteq> PStr ''formula'' then Inl AssertionError
          else
            bindE (getitem json_data ''formula'') (\<lambda>formula.
            bindE (getitem json_data ''image'') (\<lambda>image.
            bindE (py_b64decode image) (\<lambda>png_data.
            bindE (getitem json_data ''image_info'') (\<lambda>image_info.
            bindE (getitem json_data ''rendering_parameters'') (\<lambda>rendering_parameters.
              Inr \<lparr>rlf_formula = formula, rlf_png_data = png_data,
                   rlf_image_info = image_info,
                   rlf_rendering_parameters = rendering_parameters\<rparr>)))))))"

section \<open>renderer/LatexFormulaRenderer.py: LatexFormulaRenderer\<close>

text \<open>
  \<open>name\<close> and \<open>properties\<close>; the resolution \<open>rendering_dpi\<close> is the argument of the
  constructor (600 by default).
\<close>

definition latex_name :: string where
  "latex_name = ''latex''"

definition latex_properties :: "int \<Rightarrow> pydict" where
  "latex_properties rendering_dpi = [(''version'', PInt 1), (''rendering_dpi'', PInt rendering_dpi)]"

text \<open>
  Python's \<open>round\<close> of a number to an integer: to the nearest integer, and to the even one
  of the two when the number lies halfway between them.
\<close>

definition py_round :: "real \<Rightarrow> int" where
  "py_round x =
     (let f = \<lfloor>x\<rfloor>; d = x - of_int f
      in if d < 1 / 2 then f
         else if 1 / 2 < d then f + 1
         else if even f then f else f + 1)"

text \<open>
  Numbers in arithmetic: an integer, or a boolean (which counts as 0 or 1).  \<open>+\<close> and \<open>-\<close>
  on anything else end in \<open>TypeError\<close> here: where \<open>+\<close> would concatenate two strings or
  lists, the division by 2 that follows in \<open>_get_image_info\<close> raises it.
\<close>

fun py_num :: "pyval \<Rightarrow> pyerror + int" where
  "py_num (PInt i) = Inr i"
| "py_num (PBool b) = Inr (if b then 1 else 0)"
| "py_num _ = Inl TypeError"

definition py_add :: "pyval \<Rightarrow> pyval \<Rightarrow> pyerror + int" where
  "py_add a b = bindE (py_num a) (\<lambda>x. bindE (py_num b) (\<lambda>y. Inr (x + y)))"

definition py_sub :: "pyval \<Rightarrow> pyval \<Rightarrow> pyerror + int" where
  "py_sub a b = bindE (py_num a) (\<lambda>x. bindE (py_num b) (\<lambda>y. Inr (x - y)))"

text \<open>\<open>crop_info[0]["image"][group][name]\<close>.\<close>

definition crop_field :: "pyval \<Rightarrow> string \<Rightarrow> string \<Rightarrow> pyerror + pyval" where
  "crop_field crop_info grp name =
     bindE (getitem0 crop_info) (\<lambda>first.
     bindE (getitem first ''image'') (\<lambda>image.
     bindE (getitem image grp) (\<lambda>geometry.
       getitem geometry name)))"

text \<open>
  \<open>LatexFormulaRenderer._get_image_info\<close>.  The call of ImageMagick's \<open>convert\<close> on the
  two pixel wide strip at \<open>xoffset\<close>, with \<open>json.loads\<close> of its output, is the parameter
  \<open>convert_trim_json\<close>: it yields the parsed JSON or raises.  The division \<open>/ 2\<close> is the
  true division of an integer, a real number here.
\<close>

definition get_image_info ::
  "(string \<Rightarrow> int \<Rightarrow> pyerror + pyval) \<Rightarrow> string \<Rightarrow> int \<Rightarrow> pyerror + pydict" where
  "get_image_info convert_trim_json png_filename xoffset =
     bindE (convert_trim_json png_filename xoffset) (\<lambda>crop_info.
     bindE (crop_field crop_info ''pageGeometry'' ''width'') (\<lambda>image_width.
     bindE (crop_field crop_info ''pageGeometry'' ''height'') (\<lambda>image_height.
     bindE (crop_field crop_info ''pageGeometry'' ''y'') (\<lambda>upper_baseline_y_from_top.
     bindE (crop_field crop_info ''geometry'' ''height'') (\<lambda>strip_height.
     bindE (py_add upper_baseline_y_from_top strip_height) (\<lambda>lower_baseline_y_from_top.
     bindE (py_add upper_baseline_y_from_top (PInt lower_baseline_y_from_top)) (\<lambda>both.
       let baseline_y_from_top = py_round (real_of_int both / 2) in
     bindE (py_sub image_height (PInt baseline_y_from_top)) (\<lambda>baseline_y_from_bottom.
       Inr [(''width'', image_width), (''height'', image_height),
            (''baseline'', PInt baseline_y_from_bottom)]))))))))"

text \<open>The truth value of a Python value, as \<open>if\<close> takes it.\<close>

fun py_truthy :: "pyval \<Rightarrow> bool" where
  "py_truthy PNone = False"
| "py_truthy (PBool b) = b"
| "py_truthy (PInt i) = (i \<noteq> 0)"
| "py_truthy (PStr s) = (s \<noteq> [])"
| "py_truthy (PBytes b) = (b \<noteq> [])"
| "py_truthy (PList xs) = (xs \<noteq> [])"
| "py_truthy (PDict d) = (d \<noteq> [])"

text \<open>
  The document \<open>_TEX_TEMPLATE % {"content": content}\<close> and the baseline marker
  \<open>\rule{1mm}{1pt} \hspace{2mm}\<close>; \<open>CHR 0x5C\<close> is the backslash, \<open>CHR 0x0A\<close> the end of a line.
\<close>

definition tex_line :: "string \<Rightarrow> string" where
  "tex_line s = s @ [CHR 0x0A]"

definition tex_template :: "string \<Rightarrow> string" where
  "tex_template content =
     tex_line []
     @ tex_line (CHR 0x5C # ''documentclass[preview,border=1mm,varwidth=true]{standalone}'')
     @ tex_line (CHR 0x5C # ''usepackage[utf8]{inputenc}'')
     @ tex_line (CHR 0x5C # ''usepackage[T1]{fontenc}'')
     @ tex_line (CHR 0x5C # ''usepackage{lmodern}'')
     @ tex_line (CHR 0x5C # ''usepackage{amsmath}'')
     @ tex_line (CHR 0x5C # ''usepackage{amssymb}'')
     @ tex_line (CHR 0x5C # ''begin{document}'')
     @ tex_line content
     @ tex_line (CHR 0x5C # ''end{document}'')"

definition baseline_marker :: string where
  "baseline_marker = CHR 0x5C # ''rule{1mm}{1pt} '' @ CHR 0x5C # ''hspace{2mm}''"

text \<open>
  The world outside \<open>LatexFormulaRenderer.render\<close>: creating the temporary directory,
  writing the document into it and running \<open>pdflatex\<close> on it, the two calls of \<open>convert\<close>
  (PDF to PNG at a resolution, and the final crop), and the call inside \<open>_get_image_info\<close>.
  Each yields its result or the exception the call raises (\<open>CalledProcessError\<close> for a
  status other than 0).  The two \<open>print\<close> calls of \<open>render\<close> are left out; the offset
  \<open>left_crop_pixel\<close> is used by the first of them only.
\<close>

record latex_env =
  make_tempdir :: "pyerror + string"
  run_pdflatex :: "string \<Rightarrow> string \<Rightarrow> pyerror + unit"
  convert_pdf_to_png :: "int \<Rightarrow> string \<Rightarrow> string \<Rightarrow> pyerror + unit"
  convert_trim_json :: "string \<Rightarrow> int \<Rightarrow> pyerror + pyval"
  convert_crop :: "int \<Rightarrow> string \<Rightarrow> pyerror + byte list"

text \<open>
  \<open>LatexFormulaRenderer.render\<close>.  The pixel offsets are \<open>round((mm / 25.4) * dpi)\<close>.  The
  request's \<open>formula\<close> is read after the temporary directory exists; it has to be a string
  to be joined with the marker.
\<close>

definition px_of_mm :: "real \<Rightarrow> int \<Rightarrow> int" where
  "px_of_mm mm rendering_dpi = py_round ((mm / 25.4) * real_of_int rendering_dpi)"

definition latex_render :: "latex_env \<Rightarrow> int \<Rightarrow> pydict \<Rightarrow> pyerror + pydict" where
  "latex_render env rendering_dpi property_dict =
     bindE (make_tempdir env) (\<lambda>tex_dir.
       let tex_filename = tex_dir @ ''/formula.tex'';
           pdf_filename = tex_dir @ ''/formula.pdf'';
           png_filename = tex_dir @ ''/formula.png'';
           left_crop_pixel = px_of_mm 3 rendering_dpi;
           left_crop_pixel_safe = px_of_mm 2 rendering_dpi;
           eval_baseline_at_x = px_of_mm 0.5 rendering_dpi;
           short = py_truthy (case map_of property_dict ''short'' of None \<Rightarrow> PBool False | Some v \<Rightarrow> v)
       in
     bindE (dict_get property_dict ''formula'') (\<lambda>formula.
     bindE (case formula of PStr s \<Rightarrow> Inr s | _ \<Rightarrow> Inl TypeError) (\<lambda>formula_text.
       let content = (if short then ''$'' @ baseline_marker @ formula_text @ ''$''
                      else CHR 0x5C # ''['' @ baseline_marker @ formula_text @ '' '' @ CHR 0x5C # '']'')
       in
     bindE (run_pdflatex env tex_dir (tex_template content)) (\<lambda>_.
     bindE (convert_pdf_to_png env rendering_dpi pdf_filename png_filename) (\<lambda>_.
     bindE (get_image_info (convert_trim_json env) png_filename eval_baseline_at_x) (\<lambda>image_info.
     bindE (convert_crop env left_crop_pixel_safe png_filename) (\<lambda>png_data.
       Inr [(''png_data'', PBytes png_data), (''info'', PDict image_info)])))))))"

text \<open>
  The formula renderer as a renderer capability of the cache.  \<open>LatexFormulaRenderer\<close>
  defines no \<open>rendering_key\<close>: it has the method it inherits from \<open>BaseRenderer\<close>, which
  is not part of the sources at hand and is the parameter \<open>inherited_rendering_key\<close>.
\<close>

definition latex_renderer ::
  "(pydict \<Rightarrow> pyerror + pydict) \<Rightarrow> latex_env \<Rightarrow> int \<Rightarrow> unit renderer" where
  "latex_renderer inherited_rendering_key env rendering_dpi =
     \<lparr>r_name = latex_name, r_properties = latex_properties rendering_dpi,
      r_rendering_key = inherited_rendering_key,
      r_render = (\<lambda>request w. (map_sum id PDict (latex_render env rendering_dpi request), w))\<rparr>"

section \<open>Concrete inputs\<close>

text \<open>
  A digest table with one file, a store format whose key digest reads the \<open>srchash\<close>
  out of the key material, and a stub renderer with a store format for its string results:
  the inputs the general statements below are run on.
\<close>

definition hash0 :: "pyval \<Rightarrow> pyerror + string" where
  "hash0 v = (if v = PStr ''/bin/ls'' then Inr ''d41d8c'' else Inl (FileNotFoundError ''''))"

definition fmt0 :: store_format where
  "fmt0 = \<lparr>key_digest = (\<lambda>v. case v of PDict [_, _, (_, PDict [(_, PStr h)])] \<Rightarrow> h | _ \<Rightarrow> ''''),
           serialize = (\<lambda>v. case v of PStr s \<Rightarrow> s | _ \<Rightarrow> ''''), deserialize = (\<lambda>s. Some (PStr s))\<rparr>"

definition stub_renderer :: "nat renderer" where
  "stub_renderer =
     \<lparr>r_name = ''stub'', r_properties = [(''version'', PInt 1)],
      r_rendering_key = base_rendering_key,
      r_render = (\<lambda>request n. (Inr (PStr ''rendered''), Suc n))\<rparr>"

definition fmt1 :: store_format where
  "fmt1 = \<lparr>key_digest = (\<lambda>v. ''k''),
           serialize = (\<lambda>v. case v of PStr s \<Rightarrow> s | _ \<Rightarrow> []), deserialize = (\<lambda>s. Some (PStr s))\<rparr>"

definition cache0 :: "nat cache_state" where
  "cache0 = \<lparr>entries = Map.empty, store_writable = True, render_calls = 0, world = 0\<rparr>"

definition cache1 :: "nat cache_state" where
  "cache1 = \<lparr>entries = [''k'' \<mapsto> ''rendered''], store_writable = True, render_calls = 1, world = 1\<rparr>"

definition crop0 :: pyval where
  "crop0 = PList [PDict [(''image'', PDict
      [(''geometry'', PDict [(''width'', PInt 2), (''height'', PInt 1), (''x'', PInt 0), (''y'', PInt 0)]),
       (''pageGeometry'', PDict [(''width'', PInt 120), (''height'', PInt 40), (''x'', PInt 12), (''y'', PInt 30)])])]]"

definition env0 :: latex_env where
  "env0 = \<lparr>make_tempdir = Inr ''/tmp/pybeamer_formula_0'',
            run_pdflatex = (\<lambda>_ _. Inr ()),
            convert_pdf_to_png = (\<lambda>_ _ _. Inr ()),
            convert_trim_json = (\<lambda>_ _. Inr crop0),
            convert_crop = (\<lambda>_ _. Inr [])\<rparr>"

definition formula0 :: rendered_latex_formula where
  "formula0 = \<lparr>rlf_formula = PStr ''x^2'', rlf_png_data = [0x89, 0x50, 0x4E, 0x47],
       rlf_image_info = PDict [(''width'', PInt 120), (''height'', PInt 40), (''baseline'', PInt 10)],
       rlf_rendering_parameters = PDict [(''rendering_dpi'', PInt 600)]\<rparr>"

definition rp0 :: rendered_presentation where
  "rp0 = \<lparr>deploy_directory = ''out'', added_files = {}, files = Map.empty\<rparr>"

section \<open>Properties of RenderedPresentation\<close>

lemma add_file_known: "d \<in> added_files rp \<Longrightarrow> add_file w d c rp = (Inr (), rp)"
  by (simp add: add_file_def)

lemma copy_file_known: "d \<in> added_files rp \<Longrightarrow> copy_file w src d rp = (Inr (), rp)"
  by (simp add: copy_file_def)

lemma add_file_adds: "added_files (snd (add_file w d c rp)) = insert d (added_files rp)"
  by (auto simp: add_file_def Let_def split: pyval.splits)

lemma add_file_writes_only_new:
  "d \<in> added_files rp \<Longrightarrow> files (snd (add_file w d c rp)) = files rp"
  by (simp add: add_file_def)

lemma copy_file_mono: "added_files rp \<subseteq> added_files (snd (copy_file w src d rp))"
  by (auto simp: copy_file_def add_file_adds split: sum.splits)

lemma add_file_first_str:
  assumes "d \<notin> added_files rp" and "w (deploy_directory rp @ ''/'' @ d)"
  shows "add_file w d (PStr s) rp =
     (Inr (), rp\<lparr>added_files := insert d (added_files rp),
                 files := (files rp)(deploy_directory rp @ ''/'' @ d \<mapsto> PStr s)\<rparr>)"
  using assms by (simp add: add_file_def Let_def)

lemma add_file_first_bytes:
  assumes "d \<notin> added_files rp" and "w (deploy_directory rp @ ''/'' @ d)"
  shows "add_file w d (PBytes b) rp =
     (Inr (), rp\<lparr>added_files := insert d (added_files rp),
                 files := (files rp)(deploy_directory rp @ ''/'' @ d \<mapsto> PBytes b)\<rparr>)"
  using assms by (simp add: add_file_def Let_def)

lemma copy_file_first:
  assumes "d \<notin> added_files rp" and "read_rb (files rp) src = Inr data"
  shows "copy_file w src d rp = add_file w d data rp"
  using assms by (simp add: copy_file_def)

lemma copy_file_missing_source:
  assumes "d \<notin> added_files rp" and "files rp src = None"
  shows "copy_file w src d rp = (Inl (FileNotFoundError src), rp)"
  using assms by (simp add: copy_file_def read_rb_def)

text \<open>
  C10, as the code has it.  The first call that claims a destination \<open>d\<close> is an
  \<open>add_file\<close>, or a \<open>copy_file\<close> whose source could be read (it hands the bytes to
  \<open>add_file\<close>): it puts \<open>d\<close> into the set of added files and, where the file can be opened
  and the content is a string or bytes, writes the content to the deployed file.  Once \<open>d\<close>
  is in the set, every call of \<open>add_file\<close> or \<open>copy_file\<close> for \<open>d\<close>, also with another
  content or source, returns normally and leaves the whole state unchanged: the deployed
  files and the set of added files.  A \<open>copy_file\<close> whose source is missing raises and leaves
  the state, and so the destination, as it was.  The set of added files only grows.
\<close>

theorem add_file_first_claim_wins:
  "(d \<notin> added_files rp \<and> w (deploy_directory rp @ ''/'' @ d) \<longrightarrow>
      add_file w d (PStr s) rp =
        (Inr (), rp\<lparr>added_files := insert d (added_files rp),
                    files := (files rp)(deploy_directory rp @ ''/'' @ d \<mapsto> PStr s)\<rparr>)
      \<and> add_file w d (PBytes b) rp =
        (Inr (), rp\<lparr>added_files := insert d (added_files rp),
                    files := (files rp)(deploy_directory rp @ ''/'' @ d \<mapsto> PBytes b)\<rparr>))
   \<and> (d \<notin> added_files rp \<and> read_rb (files rp) src = Inr data \<longrightarrow>
      copy_file w src d rp = add_file w d data rp)
   \<and> (d \<notin> added_files rp \<and> files rp src = None \<longrightarrow>
      copy_file w src d rp = (Inl (FileNotFoundError src), rp))
   \<and> d \<in> added_files (snd (add_file w d c rp))
   \<and> (d \<in> added_files rp \<longrightarrow>
      add_file w d c rp = (Inr (), rp) \<and> copy_file w src d rp = (Inr (), rp))
   \<and> added_files rp \<subseteq> added_files (snd (add_file w d c rp))
   \<and> added_files rp \<subseteq> added_files (snd (copy_file w src d rp))"
proof -
  have claimed: "d \<in> added_files (snd (add_file w d c rp))"
    by (simp add: add_file_adds)
  have grow: "added_files rp \<subseteq> added_files (snd (add_file w d c rp))"
    by (auto simp: add_file_adds)
  from claimed grow show ?thesis
    by (simp add: add_file_first_str add_file_first_bytes copy_file_first copy_file_missing_source
          add_file_known copy_file_known copy_file_mono)
qed

theorem add_file_first_claim_wins_witness:
  "fst (add_file (\<lambda>_. True) ''a.css'' (PStr ''first'') rp0) = Inr ()
   \<and> files (snd (add_file (\<lambda>_. True) ''a.css'' (PStr ''first'') rp0)) ''out/a.css''
     = Some (PStr ''first'')
   \<and> added_files (snd (add_file (\<lambda>_. True) ''a.css'' (PStr ''first'') rp0)) = {''a.css''}
   \<and> add_file (\<lambda>_. True) ''a.css'' (PStr ''second'')
       (snd (add_file (\<lambda>_. True) ''a.css'' (PStr ''first'') rp0))
     = (Inr (), snd (add_file (\<lambda>_. True) ''a.css'' (PStr ''first'') rp0))"
proof -
  have new: "''a.css'' \<notin> added_files rp0" and ok: "(\<lambda>_. True) (deploy_directory rp0 @ ''/'' @ ''a.css'')"
    by (simp_all add: rp0_def)
  from add_file_first_claim_wins [of "''a.css''" rp0 "\<lambda>_. True" "''first''"] new ok
  have first: "add_file (\<lambda>_. True) ''a.css'' (PStr ''first'') rp0 =
        (Inr (), rp0\<lparr>added_files := insert ''a.css'' (added_files rp0),
                    files := (files rp0)(deploy_directory rp0 @ ''/'' @ ''a.css'' \<mapsto> PStr ''first'')\<rparr>)"
    by blast
  have again: "add_file (\<lambda>_. True) ''a.css'' (PStr ''second'')
       (snd (add_file (\<lambda>_. True) ''a.css'' (PStr ''first'') rp0))
     = (Inr (), snd (add_file (\<lambda>_. True) ''a.css'' (PStr ''first'') rp0))"
    unfolding first by (simp add: add_file_def)
  have f: "fst (add_file (\<lambda>_. True) ''a.css'' (PStr ''first'') rp0) = Inr ()"
    unfolding first by simp
  have g: "files (snd (add_file (\<lambda>_. True) ''a.css'' (PStr ''first'') rp0)) ''out/a.css''
     = Some (PStr ''first'')"
    unfolding first by (simp add: rp0_def)
  have h: "added_files (snd (add_file (\<lambda>_. True) ''a.css'' (PStr ''first'') rp0)) = {''a.css''}"
    unfolding first by (simp add: rp0_def)
  from f g h again show ?thesis by blast
qed

text \<open>
  C10, as stated, fails: a first call for a destination that is a \<open>copy_file\<close> with a
  missing source writes nothing and claims nothing, and the call after it writes.
\<close>

theorem copy_file_missing_source_counterexample:
  "copy_file (\<lambda>_. True) ''missing.css'' ''a.css'' rp0 = (Inl (FileNotFoundError ''missing.css''), rp0)
   \<and> files (snd (add_file (\<lambda>_. True) ''a.css'' (PStr ''second'')
                (snd (copy_file (\<lambda>_. True) ''missing.css'' ''a.css'' rp0)))) ''out/a.css''
     = Some (PStr ''second'')"
proof -
  have c: "copy_file (\<lambda>_. True) ''missing.css'' ''a.css'' rp0 = (Inl (FileNotFoundError ''missing.css''), rp0)"
    by (simp add: copy_file_def read_rb_def rp0_def)
  show ?thesis unfolding c by (simp add: add_file_def rp0_def)
qed

section \<open>Basic facts\<close>

lemma bindE_simps [simp]: "bindE (Inl e) f = Inl e" "bindE (Inr v) f = f v"
  by (simp_all add: bindE_def)

lemma dict_get_Some: "map_of d k = Some v \<Longrightarrow> dict_get d k = Inr v"
  by (simp add: dict_get_def)

lemma dict_get_None: "map_of d k = None \<Longrightarrow> dict_get d k = Inl (KeyError k)"
  by (simp add: dict_get_def)


section \<open>Properties of the exec renderer\<close>

text \<open>
  C2.  The rendering key of the exec renderer is the mapping with the single entry
  \<open>srchash\<close>, the content digest of the file named by \<open>cmd[0]\<close>.  Two requests whose
  commands name executables of the same digest get the same rendering key, whatever their
  arguments are, and so the same cache key.
\<close>

theorem exec_rendering_key_only_executable:
  assumes "map_of r1 ''cmd'' = Some (PList (exe1 # args1))"
    and "map_of r2 ''cmd'' = Some (PList (exe2 # args2))"
    and "hash_file exe1 = Inr h" and "hash_file exe2 = Inr h"
  shows "exec_rendering_key hash_file r1 = Inr [(''srchash'', PStr h)]
       \<and> exec_rendering_key hash_file r2 = exec_rendering_key hash_file r1
       \<and> request_key fmt (exec_renderer hash_file py_str run) r2
           = request_key fmt (exec_renderer hash_file py_str run) r1"
  using assms by (simp add: exec_rendering_key_def request_key_def exec_renderer_def dict_get_Some)


theorem exec_rendering_key_only_executable_witness:
  "exec_rendering_key hash0 [(''cmd'', PList [PStr ''/bin/ls'', PStr ''-l'', PStr ''/''])]
     = Inr [(''srchash'', PStr ''d41d8c'')]
   \<and> exec_rendering_key hash0 [(''cmd'', PList [PStr ''/bin/ls'', PStr ''-a''])]
     = Inr [(''srchash'', PStr ''d41d8c'')]
   \<and> request_key fmt0 (exec_renderer hash0 (\<lambda>_. []) (\<lambda>_. Completed 0 [] []))
        [(''cmd'', PList [PStr ''/bin/ls'', PStr ''-a''])] = Inr ''d41d8c''"
  using exec_rendering_key_only_executable [of
     "[(''cmd'', PList [PStr ''/bin/ls'', PStr ''-l'', PStr ''/''])]" "PStr ''/bin/ls''" "[PStr ''-l'', PStr ''/'']"
     "[(''cmd'', PList [PStr ''/bin/ls'', PStr ''-a''])]" "PStr ''/bin/ls''" "[PStr ''-a'']" hash0 "''d41d8c''"
     fmt0 "\<lambda>_. []" "\<lambda>_. Completed 0 [] []"]
  by (simp add: hash0_def fmt0_def request_key_def cache_key_def key_material_def exec_renderer_def)


text \<open>
  C9.  When the command of the request starts and exits with status 0, \<open>render\<close> returns
  the mapping with exactly the entries \<open>cmd\<close>, \<open>stdout\<close> and \<open>stderr\<close>: the command
  as given and the captured output.  For the request \<open>{cmd: ["true"]}\<close>, whose process
  writes nothing, both outputs are empty.
\<close>

theorem exec_render_success:
  assumes "map_of property_dict ''cmd'' = Some cmd" and "run cmd = Completed 0 out err"
  shows "exec_render py_str run property_dict
           = Inr [(''cmd'', cmd), (''stdout'', PBytes out), (''stderr'', PBytes err)]"
  using assms by (simp add: exec_render_def dict_get_Some)


theorem exec_render_success_witness:
  "exec_render (\<lambda>_. []) (\<lambda>_. Completed 0 [] []) [(''cmd'', PList [PStr ''true''])]
     = Inr [(''cmd'', PList [PStr ''true'']), (''stdout'', PBytes []), (''stderr'', PBytes [])]"
  using exec_render_success [of "[(''cmd'', PList [PStr ''true''])]" "PList [PStr ''true'']"
     "\<lambda>_. Completed 0 [] []" "[]" "[]" "\<lambda>_. []"]
  by simp




lemma sublist_mid: "sublist c (a @ c @ b)"
  by (meson sublist_appendI)

lemma sublist_msg_returncode:
  "sublist c (msg_returncode c rc) \<and> sublist (show_int rc) (msg_returncode c rc)"
proof -
  have "msg_returncode c rc = (''Could not execute '' @ [CHR 0x27]) @ c @ ([CHR 0x27] @ '': returncode '' @ show_int rc @ ''.'')"
    by (simp add: msg_returncode_def)
  moreover have "msg_returncode c rc = (''Could not execute '' @ [CHR 0x27] @ c @ [CHR 0x27] @ '': returncode '') @ show_int rc @ ''.''"
    by (simp add: msg_returncode_def)
  ultimately show ?thesis
    using sublist_mid by metis
qed

lemma sublist_msg_not_started:
  "sublist c (msg_not_started c e) \<and> sublist e (msg_not_started c e)"
proof -
  have "msg_not_started c e = (''Could not execute '' @ [CHR 0x27]) @ c @ ([CHR 0x27] @ '' ('' @ e @ '').'')"
    by (simp add: msg_not_started_def)
  moreover have "msg_not_started c e = (''Could not execute '' @ [CHR 0x27] @ c @ [CHR 0x27] @ '' ('') @ e @ '').''"
    by (simp add: msg_not_started_def)
  ultimately show ?thesis
    using sublist_mid by metis
qed


lemma exec_render_cases:
  assumes "map_of property_dict ''cmd'' = Some cmd"
  shows "exec_render py_str run property_dict =
       (case run cmd of
         NotStarted (SpawnPermission e) \<Rightarrow>
           Inl (FailedToExecuteSubprocessException (msg_not_started (py_str cmd) e))
       | NotStarted other \<Rightarrow> Inl (run_exception other)
       | Completed returncode out err \<Rightarrow>
           if returncode \<noteq> 0
           then Inl (FailedToExecuteSubprocessException (msg_returncode (py_str cmd) returncode))
           else Inr [(''cmd'', cmd), (''stdout'', PBytes out), (''stderr'', PBytes err)])"
  using assms by (simp add: exec_render_def dict_get_Some)

lemma run_exception_not_own: "\<not> is_failed_to_execute (Inl (run_exception se))"
  by (cases se) simp_all

lemma exec_render_other_start_failure:
  assumes "map_of property_dict ''cmd'' = Some cmd" and "run cmd = NotStarted se"
    and "\<forall>e. se \<noteq> SpawnPermission e"
  shows "exec_render py_str run property_dict = Inl (run_exception se)"
  using assms unfolding exec_render_cases [OF assms(1)] by (cases se) simp_all

text \<open>
  C5, as the code has it.  For a request with a \<open>cmd\<close> entry, \<open>render\<close> raises
  \<open>FailedToExecuteSubprocessException\<close> exactly when starting the process raises
  \<open>PermissionError\<close> or the process exits with a status other than 0.  The message holds
  the command in both cases; it holds the exit code when the process exited, and the text of
  the permission error when it could not be started.  Every other failure to start leaves
  \<open>render\<close> with the exception \<open>subprocess.run\<close> raised, unchanged: \<open>FileNotFoundError\<close>
  for a missing executable, another \<open>OSError\<close>, \<open>TypeError\<close>, \<open>IndexError\<close> for the
  empty command, \<open>ValueError\<close>.
\<close>

theorem exec_render_failure:
  assumes "map_of property_dict ''cmd'' = Some cmd"
  shows "(is_failed_to_execute (exec_render py_str run property_dict) \<longleftrightarrow>
            (\<exists>e. run cmd = NotStarted (SpawnPermission e))
          \<or> (\<exists>rc out err. run cmd = Completed rc out err \<and> rc \<noteq> 0))
       \<and> (\<forall>rc out err. run cmd = Completed rc out err \<and> rc \<noteq> 0 \<longrightarrow>
            exec_render py_str run property_dict
              = Inl (FailedToExecuteSubprocessException (msg_returncode (py_str cmd) rc))
            \<and> sublist (py_str cmd) (msg_returncode (py_str cmd) rc)
            \<and> sublist (show_int rc) (msg_returncode (py_str cmd) rc))
       \<and> (\<forall>e. run cmd = NotStarted (SpawnPermission e) \<longrightarrow>
            exec_render py_str run property_dict
              = Inl (FailedToExecuteSubprocessException (msg_not_started (py_str cmd) e))
            \<and> sublist (py_str cmd) (msg_not_started (py_str cmd) e)
            \<and> sublist e (msg_not_started (py_str cmd) e))
       \<and> (\<forall>se. run cmd = NotStarted se \<and> (\<forall>e. se \<noteq> SpawnPermission e) \<longrightarrow>
            exec_render py_str run property_dict = Inl (run_exception se))
       \<and> run_exception (SpawnNotFound e1) = FileNotFoundError e1
       \<and> run_exception (SpawnOther e2) = OSError e2
       \<and> run_exception SpawnTypeError = TypeError
       \<and> run_exception SpawnIndexError = IndexError
       \<and> run_exception (SpawnValueError e3) = ValueError e3"
proof -
  note c = exec_render_cases [OF assms, of py_str run]
  have 1: "is_failed_to_execute (exec_render py_str run property_dict) \<longleftrightarrow>
            (\<exists>e. run cmd = NotStarted (SpawnPermission e))
          \<or> (\<exists>rc out err. run cmd = Completed rc out err \<and> rc \<noteq> 0)"
    unfolding c by (simp add: run_exception_not_own split: proc_outcome.split spawn_error.split)
  have 2: "\<forall>rc out err. run cmd = Completed rc out err \<and> rc \<noteq> 0 \<longrightarrow>
            exec_render py_str run property_dict
              = Inl (FailedToExecuteSubprocessException (msg_returncode (py_str cmd) rc))"
    unfolding c by simp
  have 3: "\<forall>e. run cmd = NotStarted (SpawnPermission e) \<longrightarrow>
            exec_render py_str run property_dict
              = Inl (FailedToExecuteSubprocessException (msg_not_started (py_str cmd) e))"
    unfolding c by simp
  have 4: "\<forall>se. run cmd = NotStarted se \<and> (\<forall>e. se \<noteq> SpawnPermission e) \<longrightarrow>
            exec_render py_str run property_dict = Inl (run_exception se)"
    using exec_render_other_start_failure [OF assms] by blast
  have 5: "run_exception (SpawnNotFound e1) = FileNotFoundError e1
       \<and> run_exception (SpawnOther e2) = OSError e2
       \<and> run_exception SpawnTypeError = TypeError
       \<and> run_exception SpawnIndexError = IndexError
       \<and> run_exception (SpawnValueError e3) = ValueError e3"
    by simp
  from 1 2 3 4 5 show ?thesis
    using sublist_msg_returncode sublist_msg_not_started by blast
qed

theorem exec_render_failure_witness:
  "is_failed_to_execute
     (exec_render (\<lambda>_. ''[false]'') (\<lambda>_. Completed 1 [] []) [(''cmd'', PList [PStr ''false''])])
   \<and> exec_render (\<lambda>_. ''[false]'') (\<lambda>_. Completed 1 [] []) [(''cmd'', PList [PStr ''false''])]
       = Inl (FailedToExecuteSubprocessException (msg_returncode ''[false]'' 1))
   \<and> sublist ''1'' (msg_returncode ''[false]'' 1)
   \<and> exec_render (\<lambda>_. ''[]'') (\<lambda>_. NotStarted SpawnIndexError) [(''cmd'', PList [])]
       = Inl IndexError"
proof -
  have s: "show_int 1 = ''1''" by code_simp
  have a: "is_failed_to_execute
     (exec_render (\<lambda>_. ''[false]'') (\<lambda>_. Completed 1 [] []) [(''cmd'', PList [PStr ''false''])])
   \<and> exec_render (\<lambda>_. ''[false]'') (\<lambda>_. Completed 1 [] []) [(''cmd'', PList [PStr ''false''])]
       = Inl (FailedToExecuteSubprocessException (msg_returncode ''[false]'' 1))
   \<and> sublist ''1'' (msg_returncode ''[false]'' 1)"
    using exec_render_failure [of "[(''cmd'', PList [PStr ''false''])]" "PList [PStr ''false'']"
       "\<lambda>_. ''[false]''" "\<lambda>_. Completed 1 [] []"] s
    by simp
  have b: "exec_render (\<lambda>_. ''[]'') (\<lambda>_. NotStarted SpawnIndexError) [(''cmd'', PList [])]
       = Inl IndexError"
    using exec_render_failure [of "[(''cmd'', PList [])]" "PList []"
       "\<lambda>_. ''[]''" "\<lambda>_. NotStarted SpawnIndexError"]
    by simp
  from a b show ?thesis by blast
qed

text \<open>
  C5, as stated, fails: an executable that cannot be started because it does not exist
  makes \<open>render\<close> raise \<open>FileNotFoundError\<close>, not the renderer's own exception.
\<close>

theorem exec_render_not_found_counterexample:
  "exec_render (\<lambda>_. ''[missing]'') (\<lambda>_. NotStarted (SpawnNotFound ''No such file or directory''))
       [(''cmd'', PList [PStr ''missing''])]
     = Inl (FileNotFoundError ''No such file or directory'')
   \<and> \<not> is_failed_to_execute
       (exec_render (\<lambda>_. ''[missing]'') (\<lambda>_. NotStarted (SpawnNotFound ''No such file or directory''))
          [(''cmd'', PList [PStr ''missing''])])"
  by (simp add: exec_render_def dict_get_def)


section \<open>Properties of the renderer cache\<close>

lemma cache_render_hit:
  assumes "request_key fmt R request = Inr key" and "store_lookup fmt st key = Some data"
  shows "cache_render fmt R request st = (Inr (key, data), st)"
  using assms by (simp add: cache_render_def)

lemma request_key_cong:
  assumes "r_name R' = r_name R" and "r_properties R' = r_properties R"
    and "r_rendering_key R' request' = r_rendering_key R request"
  shows "request_key fmt R' request' = request_key fmt R request"
  using assms by (simp add: request_key_def cache_key_def key_material_def)

lemma cache_render_miss:
  assumes "request_key fmt R request = Inr k" and "store_lookup fmt st k = None"
    and "r_render R request (world st) = (r, w')"
  shows "cache_render fmt R request st =
     (case r of
        Inl e \<Rightarrow> (Inl (RenderExecutionError (r_name R) k e),
                  st\<lparr>render_calls := Suc (render_calls st), world := w'\<rparr>)
      | Inr data \<Rightarrow> (Inr (k, data),
                  st\<lparr>entries := (if store_writable st
                                      then (entries st)(k \<mapsto> serialize fmt data)
                                      else entries st),
                        render_calls := Suc (render_calls st), world := w'\<rparr>))"
  using assms by (simp add: cache_render_def split: sum.split)

lemma cache_render_key_error:
  "request_key fmt R request = Inl e \<Longrightarrow> cache_render fmt R request st = (Inl e, st)"
  by (simp add: cache_render_def)

lemma cache_render_publishes:
  assumes ok: "cache_render fmt R request st = (Inr (key, data), st1)"
    and w: "store_writable st"
    and rt: "deserialize fmt (serialize fmt data) = Some data"
  shows "request_key fmt R request = Inr key \<and> store_lookup fmt st1 key = Some data"
proof (cases "request_key fmt R request")
  case (Inl e)
  have "cache_render fmt R request st = (Inl e, st)"
    by (rule cache_render_key_error [OF Inl])
  with ok have False by simp
  then show ?thesis ..
next
  case (Inr k)
  note k = this
  show ?thesis
  proof (cases "store_lookup fmt st k")
    case (Some d)
    have "cache_render fmt R request st = (Inr (k, d), st)"
      by (rule cache_render_hit [OF k Some])
    from ok have "k = key" and "d = data" and "st = st1"
      unfolding cache_render_hit [OF k Some] by simp_all
    with k Some show ?thesis by blast
  next
    case None
    obtain r w' where rw: "r_render R request (world st) = (r, w')"
      by (cases "r_render R request (world st)")
    note m = cache_render_miss [OF k None rw]
    show ?thesis
    proof (cases r)
      case (Inl e)
      from m have "fst (cache_render fmt R request st) = Inl (RenderExecutionError (r_name R) k e)"
        unfolding Inl by simp
      moreover from ok have "fst (cache_render fmt R request st) = Inr (key, data)" by simp
      ultimately have False by simp
      then show ?thesis ..
    next
      case (Inr d)
      define st' where "st' = st\<lparr>entries := (entries st)(k \<mapsto> serialize fmt d),
                        render_calls := Suc (render_calls st), world := w'\<rparr>"
      from m w have c: "cache_render fmt R request st = (Inr (k, d), st')"
        unfolding Inr st'_def by simp
      from ok have "k = key" and "d = data" and "st' = st1"
        unfolding c by simp_all
      have "store_lookup fmt st' k = deserialize fmt (serialize fmt d)"
        unfolding st'_def by (simp add: store_lookup_def)
      with rt \<open>k = key\<close> \<open>d = data\<close> \<open>st' = st1\<close> k show ?thesis by metis
    qed
  qed
qed



text \<open>
  C1.  When a call of the cache's \<open>render\<close> returns an artifact, the store could be
  written and the entry format reads back what it wrote, then a following call returns the
  same key and the same data and leaves the cache state as it is (the wrapped \<open>render\<close>
  is not called again), provided the renderer's name and properties, its version among
  them, and the rendering key of the request are what they were at the first call.
\<close>

theorem cache_second_call_is_hit:
  assumes "cache_render fmt R request st = (Inr (key, data), st')"
    and "store_writable st"
    and "deserialize fmt (serialize fmt data) = Some data"
    and "r_name R' = r_name R" and "r_properties R' = r_properties R"
    and "r_rendering_key R' request' = r_rendering_key R request"
  shows "cache_render fmt R' request' st' = (Inr (key, data), st')
       \<and> render_calls (snd (cache_render fmt R' request' st')) = render_calls st'"
proof -
  from cache_render_publishes [OF assms(1-3)]
  have k: "request_key fmt R request = Inr key" and l: "store_lookup fmt st' key = Some data"
    by simp_all
  from k have "request_key fmt R' request' = Inr key"
    unfolding request_key_cong [OF assms(4-6), of fmt] .
  from cache_render_hit [OF this l] show ?thesis by simp
qed

theorem cache_second_call_is_hit_witness:
  "cache_render fmt1 stub_renderer [(''formula'', PStr ''x'')] cache0 = (Inr (''k'', PStr ''rendered''), cache1)
   \<and> cache_render fmt1 stub_renderer [(''formula'', PStr ''x'')] cache1 = (Inr (''k'', PStr ''rendered''), cache1)
   \<and> render_calls cache1 = 1 \<and> world cache1 = 1"
proof -
  have first: "cache_render fmt1 stub_renderer [(''formula'', PStr ''x'')] cache0 = (Inr (''k'', PStr ''rendered''), cache1)"
    by (simp add: cache_render_def request_key_def cache_key_def store_lookup_def stub_renderer_def
          fmt1_def cache0_def cache1_def base_rendering_key_def bindE_def)
  have w: "store_writable cache0" by (simp add: cache0_def)
  have rt: "deserialize fmt1 (serialize fmt1 (PStr ''rendered'')) = Some (PStr ''rendered'')"
    by (simp add: fmt1_def)
  have second: "cache_render fmt1 stub_renderer [(''formula'', PStr ''x'')] cache1 = (Inr (''k'', PStr ''rendered''), cache1)"
    using cache_second_call_is_hit [OF first w rt refl refl refl] by (rule conjunct1)
  have c: "render_calls cache1 = 1 \<and> world cache1 = 1" by (simp add: cache1_def)
  from first second c show ?thesis by (intro conjI) (rule first, rule second, simp_all)
qed

section \<open>Properties of the formula renderer\<close>

lemma cache_render_failure_keeps_entries:
  assumes "r_render R request (world st) = (Inl e, w')"
  shows "entries (snd (cache_render fmt R request st)) = entries st"
proof (cases "request_key fmt R request")
  case (Inl e')
  then show ?thesis by (simp add: cache_render_key_error)
next
  case (Inr k)
  show ?thesis
  proof (cases "store_lookup fmt st k")
    case None
    from cache_render_miss [OF Inr None assms] show ?thesis by simp
  next
    case (Some d)
    from cache_render_hit [OF Inr Some] show ?thesis by simp
  qed
qed

lemma exec_render_no_cmd:
  "map_of property_dict ''cmd'' = None \<Longrightarrow> exec_render py_str run property_dict = Inl (KeyError ''cmd'')"
  by (simp add: exec_render_def dict_get_None)

lemma latex_render_no_formula:
  "map_of property_dict ''formula'' = None \<Longrightarrow> make_tempdir env = Inr d \<Longrightarrow>
     latex_render env dpi property_dict = Inl (KeyError ''formula'')"
  by (simp add: latex_render_def dict_get_None Let_def)

text \<open>
  C6, as the code has it.  A request to the exec renderer without a \<open>cmd\<close> entry makes
  \<open>render\<close> raise \<open>KeyError\<close> for \<open>cmd\<close>, and so does \<open>rendering_key\<close>, which the
  cache calls first: the cache passes the \<open>KeyError\<close> on and is left as it was.  A request to
  the formula renderer without a \<open>formula\<close> entry makes \<open>render\<close> raise \<open>KeyError\<close> for
  \<open>formula\<close> once the temporary directory exists, and the cache writes no entry,
  whatever the \<open>rendering_key\<close> is that the renderer inherits.
\<close>

theorem missing_field_raises_KeyError:
  "(map_of request ''cmd'' = None \<longrightarrow>
      exec_render py_str run request = Inl (KeyError ''cmd'')
      \<and> cache_render fmt (exec_renderer hash_file py_str run) request st = (Inl (KeyError ''cmd''), st))
   \<and> (map_of request ''formula'' = None \<and> make_tempdir env = Inr d \<longrightarrow>
      latex_render env dpi request = Inl (KeyError ''formula'')
      \<and> entries (snd (cache_render fmt (latex_renderer rk env dpi) request st')) = entries st')"
proof (intro conjI impI)
  assume c: "map_of request ''cmd'' = None"
  then show "exec_render py_str run request = Inl (KeyError ''cmd'')"
    by (rule exec_render_no_cmd)
  from c have "request_key fmt (exec_renderer hash_file py_str run) request = Inl (KeyError ''cmd'')"
    by (simp add: request_key_def exec_renderer_def exec_rendering_key_def dict_get_None)
  then show "cache_render fmt (exec_renderer hash_file py_str run) request st = (Inl (KeyError ''cmd''), st)"
    by (rule cache_render_key_error)
next
  assume f: "map_of request ''formula'' = None \<and> make_tempdir env = Inr d"
  then have r: "latex_render env dpi request = Inl (KeyError ''formula'')"
    by (simp add: latex_render_no_formula)
  then show "latex_render env dpi request = Inl (KeyError ''formula'')" .
  from r have "r_render (latex_renderer rk env dpi) request (world st') = (Inl (KeyError ''formula''), world st')"
    by (simp add: latex_renderer_def)
  then show "entries (snd (cache_render fmt (latex_renderer rk env dpi) request st')) = entries st'"
    by (rule cache_render_failure_keeps_entries)
qed

theorem missing_field_raises_KeyError_witness:
  "exec_render (\<lambda>_. []) (\<lambda>_. Completed 0 [] []) [(''short'', PBool True)] = Inl (KeyError ''cmd'')
   \<and> latex_render env0 600 [(''short'', PBool True)] = Inl (KeyError ''formula'')"
proof -
  have m: "map_of [(''short'', PBool True)] ''cmd'' = None"
    "map_of [(''short'', PBool True)] ''formula'' = None"
    "make_tempdir env0 = Inr ''/tmp/pybeamer_formula_0''"
    by (simp_all add: env0_def)
  from missing_field_raises_KeyError [where request = "[(''short'', PBool True)]"
      and py_str = "\<lambda>_. []" and run = "\<lambda>_. Completed 0 [] []" and env = env0
      and d = "''/tmp/pybeamer_formula_0''" and dpi = 600] m
  show ?thesis by blast
qed

text \<open>
  C6, as stated, fails: the exception of a request without its required entry is
  \<open>KeyError\<close>, not \<open>InvalidInputError\<close>, for both renderers.
\<close>

theorem missing_field_counterexample:
  "exec_render (\<lambda>_. []) (\<lambda>_. Completed 0 [] []) [] = Inl (KeyError ''cmd'')
   \<and> exec_render (\<lambda>_. []) (\<lambda>_. Completed 0 [] []) [] \<noteq> Inl InvalidInputError
   \<and> latex_render env0 600 [] = Inl (KeyError ''formula'')
   \<and> latex_render env0 600 [] \<noteq> Inl InvalidInputError"
  by (simp add: exec_render_def latex_render_def dict_get_def env0_def Let_def)

text \<open>
  The properties of the formula renderer hold the version 1 and the rendering resolution.
\<close>

lemma latex_properties_resolution:
  "r_properties (latex_renderer rk env dpi) = [(''version'', PInt 1), (''rendering_dpi'', PInt dpi)]
   \<and> map_of (latex_properties dpi) ''rendering_dpi'' = Some (PInt dpi)"
  by (simp add: latex_renderer_def latex_properties_def)

lemma py_round_nearest: "\<bar>real_of_int (py_round x) - x\<bar> \<le> 1 / 2"
  unfolding py_round_def Let_def by (auto; linarith)

text \<open>
  C8.  When the trimmed strip is reported at the offset \<open>y\<close> from the top with the height
  \<open>h\<close> in a page of the height \<open>H\<close>, the image info holds the page's width and height and
  the baseline \<open>H - round((y + (y + h)) / 2)\<close>, where \<open>round\<close> is Python's rounding; the
  rounded row lies within half a pixel of the strip's vertical midpoint \<open>y + h / 2\<close>.
\<close>

theorem get_image_info_baseline:
  assumes "conv png_filename xoffset = Inr crop_info"
    and "crop_field crop_info ''pageGeometry'' ''width'' = Inr W"
    and "crop_field crop_info ''pageGeometry'' ''height'' = Inr (PInt H)"
    and "crop_field crop_info ''pageGeometry'' ''y'' = Inr (PInt y)"
    and "crop_field crop_info ''geometry'' ''height'' = Inr (PInt h)"
  shows "get_image_info conv png_filename xoffset
           = Inr [(''width'', W), (''height'', PInt H),
                  (''baseline'', PInt (H - py_round (real_of_int (y + (y + h)) / 2)))]
       \<and> \<bar>real_of_int (py_round (real_of_int (y + (y + h)) / 2)) - (real_of_int y + real_of_int h / 2)\<bar> \<le> 1 / 2"
proof -
  have e: "real_of_int y + real_of_int h / 2 = real_of_int (y + (y + h)) / 2" by simp
  have b: "\<bar>real_of_int (py_round (real_of_int (y + (y + h)) / 2)) - (real_of_int y + real_of_int h / 2)\<bar> \<le> 1 / 2"
    unfolding e by (rule py_round_nearest)
  from assms have "get_image_info conv png_filename xoffset
           = Inr [(''width'', W), (''height'', PInt H),
                  (''baseline'', PInt (H - py_round (real_of_int (y + (y + h)) / 2)))]"
    by (simp add: get_image_info_def py_add_def py_sub_def Let_def)
  with b show ?thesis by blast
qed

lemma py_round_half_even: "py_round (61 / 2) = 30"
  by (simp add: py_round_def Let_def)

theorem get_image_info_baseline_witness:
  "get_image_info (\<lambda>f x. Inr crop0) ''formula.png'' 12
     = Inr [(''width'', PInt 120), (''height'', PInt 40), (''baseline'', PInt 10)]"
proof -
  have f: "crop_field crop0 ''pageGeometry'' ''width'' = Inr (PInt 120)"
    "crop_field crop0 ''pageGeometry'' ''height'' = Inr (PInt 40)"
    "crop_field crop0 ''pageGeometry'' ''y'' = Inr (PInt 30)"
    "crop_field crop0 ''geometry'' ''height'' = Inr (PInt 1)"
    by (simp_all add: crop_field_def crop0_def dict_get_def)
  have r: "py_round (real_of_int (30 + (30 + 1)) / 2) = 30"
    using py_round_half_even by simp
  from get_image_info_baseline [of "\<lambda>f x. Inr crop0" "''formula.png''" 12 crop0, OF refl f] r
  show ?thesis by simp
qed

section \<open>Properties of the formula artifact\<close>

lemma sorted_items_perm:
  assumes d: "distinct (map fst ps)" and m: "mset qs = mset ps"
  shows "sorted_items qs = sorted_items ps"
proof -
  have "sort_key fst ps = sort_key fst qs"
  proof (rule sort_key_inj_key_eq)
    show "mset ps = mset (sort_key fst qs)" using m by simp
    show "inj_on fst (set ps)" using d by (simp add: distinct_map)
    show "sorted (map fst (sort_key fst qs))" by simp
  qed
  then show ?thesis by (simp add: sorted_items_def)
qed

text \<open>
  C3.  The cache key of a formula is a function of the formula text and the rendering
  parameters, and the order in which the parameters were inserted has no part in it: any
  reordering of a parameter dictionary (whose keys differ from each other) gives the same
  digest, since the pairs are sorted before they are written out and hashed.
\<close>

theorem calculate_cachekey_order_independent:
  assumes "distinct (map fst rendering_parameters)"
    and "mset reordered = mset rendering_parameters"
  shows "calculate_cachekey md5_hex py_repr formula reordered
           = calculate_cachekey md5_hex py_repr formula rendering_parameters"
  using sorted_items_perm [OF assms] by (simp add: calculate_cachekey_def)

theorem calculate_cachekey_order_independent_witness:
  "calculate_cachekey (\<lambda>s. s) (\<lambda>v. ''v'') ''x^2'' [(''short'', PBool True), (''dpi'', PInt 600)]
     = calculate_cachekey (\<lambda>s. s) (\<lambda>v. ''v'') ''x^2'' [(''dpi'', PInt 600), (''short'', PBool True)]
   \<and> sorted_items [(''short'', PBool True), (''dpi'', PInt 600)]
     = [(''dpi'', PInt 600), (''short'', PBool True)]"
proof -
  have d: "distinct (map fst [(''dpi'', PInt 600), (''short'', PBool True)])" by simp
  have m: "mset [(''short'', PBool True), (''dpi'', PInt 600)] = mset [(''dpi'', PInt 600), (''short'', PBool True)]"
    by simp
  have s: "sorted_items [(''short'', PBool True), (''dpi'', PInt 600)]
     = [(''dpi'', PInt 600), (''short'', PBool True)]"
    by code_simp
  from calculate_cachekey_order_independent [OF d m] s show ?thesis by blast
qed

lemma b64_alphabet_length: "length b64_alphabet = 64"
  by (simp add: b64_alphabet_def)

lemma b64_alphabet_distinct: "distinct b64_alphabet"
  by (simp add: b64_alphabet_def)

lemma b64_pad_not_in_alphabet: "CHR ''='' \<notin> set b64_alphabet"
  by (simp add: b64_alphabet_def)

lemma b64_index_char: "i < 64 \<Longrightarrow> b64_index (b64_char i) = Some i"
proof -
  assume i: "i < 64"
  have "map_of (zip b64_alphabet [0..<64]) (b64_alphabet ! i) = Some ([0..<64] ! i)"
    by (rule map_of_zip_nth) (simp_all add: b64_alphabet_length b64_alphabet_distinct i)
  with i show ?thesis by (simp add: b64_index_def b64_char_def)
qed

lemma b64_char_not_pad: "i < 64 \<Longrightarrow> b64_char i \<noteq> CHR ''=''"
proof -
  assume "i < 64"
  then have "b64_alphabet ! i \<in> set b64_alphabet"
    by (simp add: b64_alphabet_length)
  with b64_pad_not_in_alphabet show ?thesis
    by (auto simp: b64_char_def)
qed

lemma sextets_reassemble:
  fixes n :: nat
  shows "(n div 262144) * 262144 + (n div 4096 mod 64) * 4096 + (n div 64 mod 64) * 64 + n mod 64 = n"
proof -
  have a: "n div 64 mod 64 * 64 + n mod 64 = n mod 4096"
    using mod_mult2_eq [of n 64 64] by simp
  have b: "n div 4096 mod 64 * 4096 + n mod 4096 = n mod 262144"
    using mod_mult2_eq [of n 4096 64] by simp
  have c: "n div 262144 * 262144 + n mod 262144 = n"
    by simp
  from a b c show ?thesis by linarith
qed

lemma bytes_of_triple:
  fixes a b c :: nat
  assumes "b < 256" and "c < 256"
  shows "(a * 65536 + b * 256 + c) div 65536 = a"
    and "(a * 65536 + b * 256 + c) div 256 mod 256 = b"
    and "(a * 65536 + b * 256 + c) mod 256 = c"
proof -
  have e: "a * 65536 + b * 256 + c = (a * 256 + b) * 256 + c" by simp
  from assms show "(a * 65536 + b * 256 + c) div 65536 = a" by simp
  from assms(2) have d: "((a * 256 + b) * 256 + c) div 256 = a * 256 + b" by simp
  from assms(1) show "(a * 65536 + b * 256 + c) div 256 mod 256 = b"
    unfolding e d by simp
  have "((a * 256 + b) * 256 + c) mod 256 = c mod 256" by (rule mod_mult_self3)
  with assms(2) show "(a * 65536 + b * 256 + c) mod 256 = c"
    unfolding e by simp
qed

lemma sextet_bounds:
  fixes n :: nat
  assumes "n < 16777216"
  shows "n div 262144 < 64" and "n div 4096 mod 64 < 64" and "n div 64 mod 64 < 64" and "n mod 64 < 64"
  using assms by simp_all

lemma unat_byte_less: "unat (b :: byte) < 256"
  using unsigned_less [of b, where ?'a = nat] by simp

lemma triple_bound:
  fixes a b c :: byte
  shows "unat a * 65536 + unat b * 256 + unat c < 16777216"
  using unat_byte_less [of a] unat_byte_less [of b] unat_byte_less [of c] by linarith



lemma b64decode_group:
  assumes "b64_index c1 = Some i1" and "b64_index c2 = Some i2"
    and "b64_index c3 = Some i3" and "b64_index c4 = Some i4"
    and "c3 \<noteq> CHR ''=''" and "c4 \<noteq> CHR ''=''"
  shows "b64decode (c1 # c2 # c3 # c4 # rest) =
     (case b64decode rest of
        None \<Rightarrow> None
      | Some bs \<Rightarrow>
          Some (of_nat ((i1 * 262144 + i2 * 4096 + i3 * 64 + i4) div 65536)
                # of_nat ((i1 * 262144 + i2 * 4096 + i3 * 64 + i4) div 256 mod 256)
                # of_nat ((i1 * 262144 + i2 * 4096 + i3 * 64 + i4) mod 256) # bs))"
  using assms by (simp add: Let_def split: option.split)

lemma decode_quad:
  fixes a b c :: byte
  defines "n \<equiv> unat a * 65536 + unat b * 256 + unat c"
  shows "b64decode (b64_char (n div 262144) # b64_char (n div 4096 mod 64)
            # b64_char (n div 64 mod 64) # b64_char (n mod 64) # rest)
         = (case b64decode rest of None \<Rightarrow> None | Some bs \<Rightarrow> Some (a # b # c # bs))"
proof -
  have nb: "n < 16777216" unfolding n_def by (rule triple_bound)
  note sb = sextet_bounds [OF nb]
  have r: "n div 262144 * 262144 + n div 4096 mod 64 * 4096 + n div 64 mod 64 * 64 + n mod 64 = n"
    by (rule sextets_reassemble)
  have by1: "n div 65536 = unat a" and by2: "n div 256 mod 256 = unat b" and by3: "n mod 256 = unat c"
    unfolding n_def using bytes_of_triple [of "unat b" "unat c" "unat a"] unat_byte_less by simp_all
  have w: "of_nat (unat a) = a" "of_nat (unat b) = b" "of_nat (unat c) = c" by simp_all
  show ?thesis
    unfolding b64decode_group [OF b64_index_char [OF sb(1)] b64_index_char [OF sb(2)]
        b64_index_char [OF sb(3)] b64_index_char [OF sb(4)]
        b64_char_not_pad [OF sb(3)] b64_char_not_pad [OF sb(4)]] r by1 by2 by3 w ..
qed


lemma b64decode_pad2:
  assumes "b64_index c1 = Some i1" and "b64_index c2 = Some i2"
  shows "b64decode [c1, c2, CHR ''='', CHR ''='']
           = Some [of_nat ((i1 * 262144 + i2 * 4096) div 65536)]"
  using assms by (simp add: Let_def)

lemma b64decode_pad1:
  assumes "b64_index c1 = Some i1" and "b64_index c2 = Some i2" and "b64_index c3 = Some i3"
    and "c3 \<noteq> CHR ''=''"
  shows "b64decode [c1, c2, c3, CHR ''='']
           = Some [of_nat ((i1 * 262144 + i2 * 4096 + i3 * 64) div 65536),
                   of_nat ((i1 * 262144 + i2 * 4096 + i3 * 64) div 256 mod 256)]"
  using assms by (simp add: Let_def)

lemma decode_single:
  fixes a :: byte
  shows "b64decode (b64encode [a]) = Some [a]"
proof -
  define n where "n = unat a * 65536"
  have nb: "n < 16777216" using triple_bound [of a 0 0] by (simp add: n_def)
  note sb = sextet_bounds [OF nb]
  have z: "n div 64 mod 64 = 0" "n mod 64 = 0" by (simp_all add: n_def)
  have r: "n div 262144 * 262144 + n div 4096 mod 64 * 4096 = n"
    using sextets_reassemble [of n] z by simp
  have by1: "n div 65536 = unat a" by (simp add: n_def)
  have e: "b64encode [a] = [b64_char (n div 262144), b64_char (n div 4096 mod 64), CHR ''='', CHR ''='']"
    by (simp add: n_def Let_def)
  show ?thesis
    unfolding e b64decode_pad2 [OF b64_index_char [OF sb(1)] b64_index_char [OF sb(2)]] r by1
    by simp
qed

lemma decode_pair:
  fixes a b :: byte
  shows "b64decode (b64encode [a, b]) = Some [a, b]"
proof -
  define n where "n = unat a * 65536 + unat b * 256"
  have nb: "n < 16777216" using triple_bound [of a b 0] by (simp add: n_def)
  note sb = sextet_bounds [OF nb]
  have z: "n mod 64 = 0" by (simp add: n_def)
  have r: "n div 262144 * 262144 + n div 4096 mod 64 * 4096 + n div 64 mod 64 * 64 = n"
    using sextets_reassemble [of n] z by simp
  have by1: "n div 65536 = unat a" and by2: "n div 256 mod 256 = unat b"
    using bytes_of_triple [of "unat b" 0 "unat a"] unat_byte_less [of b] by (simp_all add: n_def)
  have e: "b64encode [a, b] = [b64_char (n div 262144), b64_char (n div 4096 mod 64),
             b64_char (n div 64 mod 64), CHR ''='']"
    by (simp add: n_def Let_def)
  show ?thesis
    unfolding e b64decode_pad1 [OF b64_index_char [OF sb(1)] b64_index_char [OF sb(2)]
        b64_index_char [OF sb(3)] b64_char_not_pad [OF sb(3)]] r by1 by2
    by simp
qed

lemma b64_roundtrip: "b64decode (b64encode bs) = Some bs"
proof (induction bs rule: b64encode.induct)
  case 1
  show ?case by simp
next
  case (2 a)
  show ?case by (rule decode_single)
next
  case (3 a b)
  show ?case by (rule decode_pair)
next
  case (4 a b c rest)
  have e: "b64encode (a # b # c # rest) =
      b64_char ((unat a * 65536 + unat b * 256 + unat c) div 262144)
      # b64_char ((unat a * 65536 + unat b * 256 + unat c) div 4096 mod 64)
      # b64_char ((unat a * 65536 + unat b * 256 + unat c) div 64 mod 64)
      # b64_char ((unat a * 65536 + unat b * 256 + unat c) mod 64) # b64encode rest"
    by (simp add: Let_def)
  from "4.IH" have "b64decode (b64encode rest) = Some rest" by simp
  then show ?case unfolding e decode_quad by simp
qed


text \<open>
  C7.  An artifact that \<open>write_jsonfile\<close> has written is what \<open>read_jsonfile\<close> reads
  back from that file: the formula, the rendering parameters and the image info as they
  were, and the PNG bytes as they were, the Base64 text decoding to the bytes it encodes.
\<close>

theorem jsonfile_roundtrip:
  assumes "write_jsonfile can_write self filename fs = (Inr (), fs')"
  shows "read_jsonfile filename fs' = Inr self
       \<and> b64decode (b64encode (rlf_png_data self)) = Some (rlf_png_data self)"
proof -
  let ?doc = "PDict
            [(''object'', PStr ''formula''),
             (''formula'', rlf_formula self),
             (''rendering_parameters'', rlf_rendering_parameters self),
             (''image_info'', rlf_image_info self),
             (''image'', PStr (b64encode (rlf_png_data self)))]"
  from assms have fs': "fs' = fs(filename \<mapsto> JsonDoc ?doc)"
    by (simp add: write_jsonfile_def Let_def split: if_splits)
  have "read_jsonfile filename fs' = Inr self"
    unfolding fs' by (simp add: read_jsonfile_def dict_get_def b64_roundtrip)
  then show ?thesis by (simp add: b64_roundtrip)
qed

lemma b64_png: "b64encode [0x89, 0x50, 0x4E, 0x47] = ''iVBORw==''"
  by (simp add: Let_def b64_char_def b64_alphabet_def)

theorem jsonfile_roundtrip_witness:
  "fst (write_jsonfile (\<lambda>_. True) formula0 ''formula.json'' Map.empty) = Inr ()
   \<and> read_jsonfile ''formula.json'' (snd (write_jsonfile (\<lambda>_. True) formula0 ''formula.json'' Map.empty))
       = Inr formula0"
proof -
  have w: "fst (write_jsonfile (\<lambda>_. True) formula0 ''formula.json'' Map.empty) = Inr ()"
    by (simp add: write_jsonfile_def formula0_def Let_def)
  then have "write_jsonfile (\<lambda>_. True) formula0 ''formula.json'' Map.empty
      = (Inr (), snd (write_jsonfile (\<lambda>_. True) formula0 ''formula.json'' Map.empty))"
    by (metis prod.collapse)
  from jsonfile_roundtrip [OF this] w show ?thesis by blast
qed

end
